theory Spec2Isabelle
  imports Complex_Main "HOL-Library.Multiset"
begin

section \<open>JavaScript values used by the component\<close>

text \<open>
  A thrown value as the two \<^verbatim>\<open>catch (err: any)\<close> blocks read it: only
  \<^verbatim>\<open>err.message\<close> is looked at. The value is either undefined or null
  (\<open>Nullish\<close>), and then reading \<^verbatim>\<open>err.message\<close> itself throws a TypeError,
  or any other value, whose \<^verbatim>\<open>message\<close> is undefined or a string.
\<close>

datatype js_error = Nullish | JsError "string option"

text \<open>
  The arguments handed to the ABI encoders: strings (addresses, hex data), bigints
  (\<^verbatim>\<open>3n\<close>) and arrays.
\<close>

datatype js_value = JStr string | JBigInt int | JArr "js_value list"

text \<open>\<^verbatim>\<open>err.message || 'An unknown error occurred.'\<close>: undefined and the empty
  string are falsy. The result is \<open>None\<close> when the expression throws instead of
  returning a string.\<close>

definition message_or_default :: "js_error \<Rightarrow> string option" where
  "message_or_default err =
     (case err of
        Nullish \<Rightarrow> None
      | JsError None \<Rightarrow> Some ''An unknown error occurred.''
      | JsError (Some m) \<Rightarrow> Some (if m = [] then ''An unknown error occurred.'' else m))"

text \<open>
  \<^verbatim>\<open>String.prototype.slice(start, end)\<close>: a negative index counts from the end,
  every index is clamped to the string, and an omitted end is the length.
\<close>

definition slice_index :: "nat \<Rightarrow> int \<Rightarrow> nat" where
  "slice_index len i = (if i < 0 then nat (max (int len + i) 0) else min (nat i) len)"

definition slice :: "string \<Rightarrow> int \<Rightarrow> int option \<Rightarrow> string" where
  "slice s start end' =
     (let len = length s;
          from = slice_index len start;
          to = (case end' of None \<Rightarrow> len | Some e \<Rightarrow> slice_index len e)
      in take (to - from) (drop from s))"

text \<open>\<^verbatim>\<open>Number.prototype.toString(16)\<close> on an integer.\<close>

definition hex_digit :: "nat \<Rightarrow> char" where
  "hex_digit d = ''0123456789abcdef'' ! (d mod 16)"

fun nat_toString16 :: "nat \<Rightarrow> string" where
  "nat_toString16 n =
     (if n < 16 then [hex_digit n] else nat_toString16 (n div 16) @ [hex_digit (n mod 16)])"

definition toString16 :: "int \<Rightarrow> string" where
  "toString16 i = (if i < 0 then ''-'' @ nat_toString16 (nat (- i)) else nat_toString16 (nat i))"

text \<open>Template literals print a number in decimal.\<close>

definition dec_digit :: "nat \<Rightarrow> char" where
  "dec_digit d = ''0123456789'' ! (d mod 10)"

fun nat_toString :: "nat \<Rightarrow> string" where
  "nat_toString n =
     (if n < 10 then [dec_digit n] else nat_toString (n div 10) @ [dec_digit (n mod 10)])"

section \<open>The SDK surface and the configuration\<close>

text \<open>
  The objects of the account-abstraction SDK are opaque to the component: it reads the
  address of an account and passes the rest on.
\<close>

datatype chain = Chain (chain_id: nat)
datatype transport = Http "string option"
datatype public_client = PublicClient chain transport
datatype pimlico_client = PimlicoClient transport
datatype private_key_account = PrivateKeyAccount (owner_address: string)
datatype safe_smart_account = SafeSmartAccount (address: string)
datatype smart_client = SmartAccountClient (account: safe_smart_account)

record safe_account_params =
  publicClient :: public_client
  owner :: private_key_account
  entryPoint :: string
  safeVersion :: string
  saltNonce :: int

record client_params =
  client_account :: safe_smart_account
  client_chain :: chain
  bundlerTransport :: transport
  sponsorUserOperation :: pimlico_client

record tx =
  to :: string
  data :: string

text \<open>
  The module \<^verbatim>\<open>../constants\<close> is imported by the component and supplies these
  four values; they are parameters of every definition below. The API key comes from
  the environment and may be undefined.
\<close>

record constants =
  PIMLICO_API_KEY :: "string option"
  CHAIN :: chain
  ENTRYPOINT_V07 :: string
  RECOVERY_MODULE_ADDR :: string

text \<open>
  The library functions the component calls. Each of them may throw (or reject), which
  is the \<open>Inl\<close> result. \<open>encodeAbiParameters\<close> takes the human-readable parameter
  list that the source parses with \<^verbatim>\<open>parseAbiParameters\<close>, \<open>encodeFunctionData\<close>
  the signatures that the source parses with \<^verbatim>\<open>parseAbi\<close>, the function name
  and the arguments.
\<close>

record sdk =
  privateKeyToAccount :: "string \<Rightarrow> js_error + private_key_account"
  toSafeSmartAccount :: "safe_account_params \<Rightarrow> js_error + safe_smart_account"
  createSmartAccountClient :: "client_params \<Rightarrow> js_error + smart_client"
  encodeAbiParameters :: "string \<Rightarrow> js_value list \<Rightarrow> js_error + string"
  encodeFunctionData :: "string list \<Rightarrow> string \<Rightarrow> js_value list \<Rightarrow> js_error + string"
  sendTransactions :: "smart_client \<Rightarrow> tx list \<Rightarrow> js_error + string"

text \<open>What an action does to the outside, in the order it does it. The last entry
  \<open>UnhandledRejection\<close> stands for an exception that leaves the event handler: the
  promise the handler returned rejects and nobody handles it.\<close>

datatype sdk_call =
    ConsoleLog "string list"
  | ConsoleError js_error
  | SetTimeout nat
  | PrivateKeyToAccount string
  | ToSafeSmartAccount safe_account_params
  | CreateSmartAccountClient client_params
  | EncodeAbiParameters string "js_value list"
  | EncodeFunctionData "string list" string "js_value list"
  | SendTransactions smart_client "tx list"
  | UnhandledRejection

section \<open>Owner provisioning: \<^verbatim>\<open>getBiometricOwner\<close>\<close>

text \<open>
  \<open>rnd i\<close> is the value of the \<open>i\<close>-th call of \<^verbatim>\<open>Math.random()\<close>, a number
  in \<open>[0, 1)\<close>. The key is \<^verbatim>\<open>'0x'\<close> followed by 64 nibbles
  \<^verbatim>\<open>Math.floor(Math.random() * 16).toString(16)\<close>.
\<close>

definition random_nibble :: "real \<Rightarrow> string" where
  "random_nibble r = toString16 \<lfloor>r * 16\<rfloor>"

definition random_private_key :: "(nat \<Rightarrow> real) \<Rightarrow> string" where
  "random_private_key rnd = ''0x'' @ concat (map (\<lambda>i. random_nibble (rnd i)) [0..<64])"

definition getBiometricOwner ::
  "sdk \<Rightarrow> (nat \<Rightarrow> real) \<Rightarrow> sdk_call list \<times> (js_error + private_key_account)" where
  "getBiometricOwner lib rnd =
     (let privateKey = random_private_key rnd;
          before = [ConsoleLog [''Simulating biometric prompt for owner key...''],
                    SetTimeout 1500,
                    PrivateKeyToAccount privateKey]
      in case privateKeyToAccount lib privateKey of
           Inl err \<Rightarrow> (before, Inl err)
         | Inr acct \<Rightarrow>
             (before @ [ConsoleLog [''Biometric owner created (mock):'', owner_address acct]],
              Inr acct))"

section \<open>The component state\<close>

record ui_state =
  smartClient :: "smart_client option"
  status :: string
  loading :: bool
  error :: "string option"

definition initial_state :: ui_state where
  "initial_state = \<lparr>smartClient = None, status = ''Idle'', loading = False, error = None\<rparr>"

definition setSmartClient :: "smart_client option \<Rightarrow> ui_state \<Rightarrow> ui_state" where
  "setSmartClient v s = s\<lparr>smartClient := v\<rparr>"

definition setStatus :: "string \<Rightarrow> ui_state \<Rightarrow> ui_state" where
  "setStatus v s = s\<lparr>status := v\<rparr>"

definition setLoading :: "bool \<Rightarrow> ui_state \<Rightarrow> ui_state" where
  "setLoading v s = s\<lparr>loading := v\<rparr>"

definition setError :: "string option \<Rightarrow> ui_state \<Rightarrow> ui_state" where
  "setError v s = s\<lparr>error := v\<rparr>"

text \<open>
  The state after each of a sequence of setter calls. The setters that an event handler
  calls before its first \<^verbatim>\<open>await\<close> are committed together; those after an
  \<^verbatim>\<open>await\<close> are listed one by one, so every state that can be rendered is in
  the list.
\<close>

fun run_setters :: "(ui_state \<Rightarrow> ui_state) list \<Rightarrow> ui_state \<Rightarrow> ui_state list" where
  "run_setters [] s = []"
| "run_setters (f # fs) s = f s # run_setters fs (f s)"

section \<open>The clients built on every render\<close>

definition rpcUrl :: "constants \<Rightarrow> string" where
  "rpcUrl c =
     ''https://api.pimlico.io/v2/'' @ nat_toString (chain_id (CHAIN c)) @ ''/rpc?apikey=''
       @ (case PIMLICO_API_KEY c of None \<Rightarrow> ''undefined'' | Some k \<Rightarrow> k)"

definition the_publicClient :: "constants \<Rightarrow> public_client" where
  "the_publicClient c = PublicClient (CHAIN c) (Http None)"

definition the_pimlicoClient :: "constants \<Rightarrow> pimlico_client" where
  "the_pimlicoClient c = PimlicoClient (Http (Some (rpcUrl c)))"

section \<open>Vault creation: \<^verbatim>\<open>createVault\<close>\<close>

text \<open>
  The body of the \<^verbatim>\<open>try\<close> block up to the client: the calls made, and either
  the value thrown or the client.
\<close>

definition safeAccountParams :: "constants \<Rightarrow> private_key_account \<Rightarrow> safe_account_params" where
  "safeAccountParams c owner' =
     \<lparr>publicClient = the_publicClient c, owner = owner', entryPoint = ENTRYPOINT_V07 c,
      safeVersion = ''1.4.1'', saltNonce = 0\<rparr>"

definition smartAccountClientParams :: "constants \<Rightarrow> safe_smart_account \<Rightarrow> client_params" where
  "smartAccountClientParams c safeAccount =
     \<lparr>client_account = safeAccount, client_chain = CHAIN c,
      bundlerTransport = Http (Some (rpcUrl c)),
      sponsorUserOperation = the_pimlicoClient c\<rparr>"

definition createVault_try ::
  "sdk \<Rightarrow> constants \<Rightarrow> (nat \<Rightarrow> real) \<Rightarrow> sdk_call list \<times> (js_error + smart_client)" where
  "createVault_try lib c rnd =
     (case getBiometricOwner lib rnd of
        (calls1, Inl err) \<Rightarrow> (calls1, Inl err)
      | (calls1, Inr owner') \<Rightarrow>
          (let calls2 = calls1 @ [ToSafeSmartAccount (safeAccountParams c owner')]
           in case toSafeSmartAccount lib (safeAccountParams c owner') of
                Inl err \<Rightarrow> (calls2, Inl err)
              | Inr safeAccount \<Rightarrow>
                  (let calls3 = calls2 @ [CreateSmartAccountClient
                                            (smartAccountClientParams c safeAccount)]
                   in case createSmartAccountClient lib
                             (smartAccountClientParams c safeAccount) of
                        Inl err \<Rightarrow> (calls3, Inl err)
                      | Inr client \<Rightarrow> (calls3, Inr client))))"

text \<open>
  The action returns the states it commits, in order, and the calls it makes. The first
  state is the one shown while the action is in flight; the last one is the state the
  action leaves. In the \<^verbatim>\<open>catch\<close> block \<^verbatim>\<open>err.message\<close> is read
  before any setter is called: when that read throws, only \<^verbatim>\<open>finally\<close> runs
  and the exception leaves the handler.
\<close>

definition createVault ::
  "sdk \<Rightarrow> constants \<Rightarrow> (nat \<Rightarrow> real) \<Rightarrow> ui_state \<Rightarrow> ui_state list \<times> sdk_call list" where
  "createVault lib c rnd st =
     (let s0 = setStatus ''Initializing Biometric Vault...'' (setError None (setLoading True st))
      in case createVault_try lib c rnd of
           (calls, Inr client) \<Rightarrow>
             (s0 # run_setters
                [setSmartClient (Some client),
                 setStatus (''Vault Active: '' @ slice (address (account client)) 0 (Some 6)
                              @ ''...'' @ slice (address (account client)) (- 4) None),
                 setLoading False] s0,
              calls)
         | (calls, Inl err) \<Rightarrow>
             (case message_or_default err of
                Some errorMessage \<Rightarrow>
                  (s0 # run_setters
                     [setStatus ''Initialization Failed'',
                      setError (Some errorMessage),
                      setLoading False] s0,
                   calls @ [ConsoleError err])
              | None \<Rightarrow>
                  (s0 # run_setters [setLoading False] s0,
                   calls @ [ConsoleError err, UnhandledRejection])))"

section \<open>Recovery enablement: \<^verbatim>\<open>enableRecovery\<close>\<close>

definition setup_values :: "string list \<Rightarrow> js_value list" where
  "setup_values guardians = [JArr (map JStr guardians), JBigInt 3, JBigInt (48 * 3600)]"

definition enableRecovery_try ::
  "sdk \<Rightarrow> constants \<Rightarrow> smart_client \<Rightarrow> string list \<Rightarrow> sdk_call list \<times> (js_error + string)" where
  "enableRecovery_try lib c client guardians =
     (let calls1 = [EncodeAbiParameters
                      ''address[] guardians, uint256 threshold, uint256 delay''
                      (setup_values guardians)]
      in case encodeAbiParameters lib
                ''address[] guardians, uint256 threshold, uint256 delay''
                (setup_values guardians) of
           Inl err \<Rightarrow> (calls1, Inl err)
         | Inr setupData \<Rightarrow>
             (let calls2 = calls1 @ [EncodeFunctionData [''function enableModule(address module)'']
                                       ''enableModule'' [JStr (RECOVERY_MODULE_ADDR c)]]
              in case encodeFunctionData lib [''function enableModule(address module)'']
                        ''enableModule'' [JStr (RECOVERY_MODULE_ADDR c)] of
                   Inl err \<Rightarrow> (calls2, Inl err)
                 | Inr moduleSetupData \<Rightarrow>
                     (let calls3 = calls2 @ [EncodeFunctionData
                                               [''function setup(bytes calldata data)'']
                                               ''setup'' [JStr setupData]]
                      in case encodeFunctionData lib [''function setup(bytes calldata data)'']
                                ''setup'' [JStr setupData] of
                           Inl err \<Rightarrow> (calls3, Inl err)
                         | Inr setupCall \<Rightarrow>
                             (let batch = [\<lparr>to = address (account client), data = moduleSetupData\<rparr>,
                                           \<lparr>to = RECOVERY_MODULE_ADDR c, data = setupCall\<rparr>]
                              in (calls3 @ [SendTransactions client batch],
                                  sendTransactions lib client batch)))))"

text \<open>
  Here the \<^verbatim>\<open>catch\<close> block calls \<^verbatim>\<open>setStatus\<close> first and reads
  \<^verbatim>\<open>err.message\<close> in the argument of \<^verbatim>\<open>setError\<close>: when that read
  throws, the status is set, the error is not, \<^verbatim>\<open>finally\<close> runs and the
  exception leaves the handler.
\<close>

definition enableRecovery ::
  "sdk \<Rightarrow> constants \<Rightarrow> string list \<Rightarrow> ui_state \<Rightarrow> ui_state list \<times> sdk_call list" where
  "enableRecovery lib c guardians st =
     (case smartClient st of
        None \<Rightarrow> ([], [])
      | Some client \<Rightarrow>
          (let s0 = setStatus ''Configuring 3-of-5 Guardian Protocol...''
                      (setError None (setLoading True st))
           in case enableRecovery_try lib c client guardians of
                (calls, Inr txHash) \<Rightarrow>
                  (s0 # run_setters
                     [setStatus (''Recovery Protocol Live: '' @ slice txHash 0 (Some 10) @ ''...''),
                      setLoading False] s0,
                   calls)
              | (calls, Inl err) \<Rightarrow>
                  (case message_or_default err of
                     Some errorMessage \<Rightarrow>
                       (s0 # run_setters
                          [setStatus ''Recovery Setup Failed'',
                           setError (Some errorMessage),
                           setLoading False] s0,
                        calls @ [ConsoleError err])
                   | None \<Rightarrow>
                       (s0 # run_setters
                          [setStatus ''Recovery Setup Failed'',
                           setLoading False] s0,
                        calls @ [ConsoleError err, UnhandledRejection]))))"

text \<open>The state an action leaves: the last state it commits, or the state it found.\<close>

definition final_state :: "ui_state \<Rightarrow> ui_state list \<times> sdk_call list \<Rightarrow> ui_state" where
  "final_state st r = (if fst r = [] then st else last (fst r))"

definition submissions :: "sdk_call list \<Rightarrow> (smart_client \<times> tx list) list" where
  "submissions calls =
     concat (map (\<lambda>e. case e of SendTransactions cl batch \<Rightarrow> [(cl, batch)] | _ \<Rightarrow> []) calls)"

section \<open>What the component renders\<close>

datatype handler = OnCreateVault | OnEnableRecovery "string list"

datatype element =
    Icon string
  | Text string
  | Button handler bool "element list"
  | Node string "element list"

fun handlers :: "element \<Rightarrow> handler list" where
  "handlers (Icon n) = []"
| "handlers (Text t) = []"
| "handlers (Button h d cs) = h # concat (map handlers cs)"
| "handlers (Node t cs) = concat (map handlers cs)"

fun texts :: "element \<Rightarrow> string list" where
  "texts (Icon n) = []"
| "texts (Text t) = [t]"
| "texts (Button h d cs) = concat (map texts cs)"
| "texts (Node t cs) = concat (map texts cs)"

text \<open>The guardian list written in \<^verbatim>\<open>GuardianButton\<close>.\<close>

definition sample_guardians :: "string list" where
  "sample_guardians =
     [''0xdeadbeefdeadbeefdeadbeefdeadbeefdeadbeef'',
      ''0x1234567890123456789012345678901234567890'',
      ''0xfedcba9876543210fedcba9876543210fedcba98'',
      ''0xabcdef1234567890abcdef1234567890abcdef'',
      ''0x0987654321fedcba0987654321fedcba098765'']"

definition GuardianButton :: "ui_state \<Rightarrow> element" where
  "GuardianButton st =
     Button (OnEnableRecovery sample_guardians) (loading st)
       [if loading st then Icon ''Loader2'' else Icon ''Users'',
        Text ''SETUP 3-OF-5 GUARDIANS'']"

definition config_error_view :: element where
  "config_error_view =
     Node ''div''
       [Icon ''AlertTriangle'',
        Node ''h2'' [Text ''Configuration Error''],
        Node ''p'' [Text ''Pimlico API key is missing. Please set the `API_KEY` environment variable to continue.'']]"

text \<open>\<^verbatim>\<open>!PIMLICO_API_KEY\<close>: undefined and the empty string are falsy.\<close>

definition api_key_missing :: "constants \<Rightarrow> bool" where
  "api_key_missing c = (case PIMLICO_API_KEY c of None \<Rightarrow> True | Some k \<Rightarrow> k = [])"

definition ShadowVault :: "constants \<Rightarrow> ui_state \<Rightarrow> element" where
  "ShadowVault c st =
     (if api_key_missing c then config_error_view
      else
        Node ''div''
          [Node ''div'' [Icon ''Shield'', Node ''h1'' [Text ''SHADOWVAULT''], Icon ''Lock''],
           (case smartClient st of
              None \<Rightarrow>
                Button OnCreateVault (loading st)
                  [if loading st then Icon ''Loader2'' else Icon ''Fingerprint'',
                   Text ''CREATE SECURE VAULT'']
            | Some cl \<Rightarrow>
                Node ''div''
                  [Icon ''CheckCircle'',
                   Node ''div''
                     [Node ''p'' [Text ''Vault Address''],
                      Node ''code'' [Text (address (account cl))]],
                   GuardianButton st]),
           Node ''div''
             (Node ''p'' [Text (status st)]
              # (case error st of
                   None \<Rightarrow> []
                 | Some e \<Rightarrow> if e = [] then [] else [Node ''p'' [Text e]]))])"

section \<open>A reference instance of the SDK\<close>

text \<open>
  The theorems below hold for every instance of \<open>sdk\<close>. This instance follows the
  library where the component depends on it: the address check and the ABI layout of the
  three encodings the component asks for, and the range of a secp256k1 private key. What
  needs a network or elliptic-curve arithmetic (the derived addresses, the hash of a
  submitted batch) is a fixed stand-in.
\<close>

fun index_of :: "'a \<Rightarrow> 'a list \<Rightarrow> nat option" where
  "index_of x [] = None"
| "index_of x (y # ys) = (if x = y then Some 0 else map_option Suc (index_of x ys))"

definition hex_value :: "char \<Rightarrow> nat option" where
  "hex_value ch =
     (case index_of ch ''0123456789abcdef'' of
        Some d \<Rightarrow> Some d
      | None \<Rightarrow> map_option (\<lambda>d. d + 10) (index_of ch ''ABCDEF''))"

fun hex_to_nat :: "nat \<Rightarrow> string \<Rightarrow> nat option" where
  "hex_to_nat acc [] = Some acc"
| "hex_to_nat acc (ch # cs) =
     (case hex_value ch of None \<Rightarrow> None | Some d \<Rightarrow> hex_to_nat (16 * acc + d) cs)"

definition is_hex :: "string \<Rightarrow> bool" where
  "is_hex s = list_all (\<lambda>ch. hex_value ch \<noteq> None) s"

text \<open>An address is \<^verbatim>\<open>0x\<close> and 40 hexadecimal digits (the checksum of a
  mixed-case address is not modelled).\<close>

definition isAddress :: "string \<Rightarrow> bool" where
  "isAddress a = (length a = 42 \<and> take 2 a = ''0x'' \<and> is_hex (drop 2 a))"

definition to_lower_hex :: "char \<Rightarrow> char" where
  "to_lower_hex ch =
     (case index_of ch ''ABCDEF'' of None \<Rightarrow> ch | Some d \<Rightarrow> ''abcdef'' ! d)"

definition pad_left :: "nat \<Rightarrow> string \<Rightarrow> string" where
  "pad_left n s = replicate (n - length s) CHR ''0'' @ s"

definition pad_right :: "nat \<Rightarrow> string \<Rightarrow> string" where
  "pad_right n s = s @ replicate (n - length s) CHR ''0''"

definition abi_uint :: "nat \<Rightarrow> string" where
  "abi_uint n = pad_left 64 (nat_toString16 n)"

definition abi_address :: "string \<Rightarrow> string" where
  "abi_address a = pad_left 64 (map to_lower_hex (drop 2 a))"

definition abi_bytes :: "string \<Rightarrow> string" where
  "abi_bytes h =
     (let digits = drop 2 h
      in abi_uint (length digits div 2) @ pad_right (((length digits + 63) div 64) * 64) digits)"

definition invalid_address :: js_error where
  "invalid_address = JsError (Some ''Address is invalid.'')"

definition unsupported :: js_error where
  "unsupported = JsError (Some ''Invalid ABI parameters.'')"

fun address_strings :: "js_value list \<Rightarrow> string list option" where
  "address_strings [] = Some []"
| "address_strings (JStr a # vs) = map_option (\<lambda>as. a # as) (address_strings vs)"
| "address_strings (v # vs) = None"

definition model_encodeAbiParameters :: "string \<Rightarrow> js_value list \<Rightarrow> js_error + string" where
  "model_encodeAbiParameters params vals =
     (if params = ''address[] guardians, uint256 threshold, uint256 delay'' then
        (case vals of
           [JArr gs, JBigInt threshold, JBigInt delay] \<Rightarrow>
             (case address_strings gs of
                None \<Rightarrow> Inl invalid_address
              | Some as \<Rightarrow>
                  if \<not> list_all isAddress as then Inl invalid_address
                  else if threshold < 0 \<or> 2 ^ 256 \<le> threshold \<or> delay < 0 \<or> 2 ^ 256 \<le> delay
                  then Inl (JsError (Some ''Number is not in safe 256-bit unsigned integer range.''))
                  else Inr (''0x'' @ abi_uint 96 @ abi_uint (nat threshold) @ abi_uint (nat delay)
                              @ abi_uint (length as) @ concat (map abi_address as)))
         | _ \<Rightarrow> Inl unsupported)
      else Inl unsupported)"

definition model_encodeFunctionData ::
  "string list \<Rightarrow> string \<Rightarrow> js_value list \<Rightarrow> js_error + string" where
  "model_encodeFunctionData abi functionName args =
     (if abi = [''function enableModule(address module)''] \<and> functionName = ''enableModule'' then
        (case args of
           [JStr a] \<Rightarrow> if isAddress a then Inr (''0x610b5925'' @ abi_address a)
                       else Inl invalid_address
         | _ \<Rightarrow> Inl unsupported)
      else if abi = [''function setup(bytes calldata data)''] \<and> functionName = ''setup'' then
        (case args of
           [JStr h] \<Rightarrow>
             if take 2 h = ''0x'' \<and> is_hex (drop 2 h) \<and> even (length h)
             then Inr (''0x9ded06df'' @ abi_uint 32 @ abi_bytes h)
             else Inl (JsError (Some ''Invalid bytes value.''))
         | _ \<Rightarrow> Inl unsupported)
      else Inl unsupported)"

text \<open>The order of the secp256k1 group: a private key is a number from 1 to one below it.\<close>

definition secp256k1_n :: nat where
  "secp256k1_n =
     115792089237316195423570985008687907852837564279074904382605163141518161494337"

definition invalid_private_key :: js_error where
  "invalid_private_key = JsError (Some ''invalid private key'')"

definition model_privateKeyToAccount :: "string \<Rightarrow> js_error + private_key_account" where
  "model_privateKeyToAccount key =
     (if length key = 66 \<and> take 2 key = ''0x'' then
        (case hex_to_nat 0 (drop 2 key) of
           None \<Rightarrow> Inl invalid_private_key
         | Some k \<Rightarrow>
             if 0 < k \<and> k < secp256k1_n then Inr (PrivateKeyAccount (''0x'' @ drop 26 key))
             else Inl invalid_private_key)
      else Inl invalid_private_key)"

definition model_sdk :: sdk where
  "model_sdk =
     \<lparr>privateKeyToAccount = model_privateKeyToAccount,
      toSafeSmartAccount = (\<lambda>p. Inr (SafeSmartAccount (owner_address (owner p)))),
      createSmartAccountClient = (\<lambda>p. Inr (SmartAccountClient (client_account p))),
      encodeAbiParameters = model_encodeAbiParameters,
      encodeFunctionData = model_encodeFunctionData,
      sendTransactions = (\<lambda>cl batch. Inr (''0x'' @ replicate 64 CHR ''7''))\<rparr>"

definition model_constants :: constants where
  "model_constants =
     \<lparr>PIMLICO_API_KEY = Some ''pim_key'',
      CHAIN = Chain 11155111,
      ENTRYPOINT_V07 = ''0x0000000071727De22E5E9d8BAf0edAc6f37da032'',
      RECOVERY_MODULE_ADDR = ''0x1111111111111111111111111111111111111111''\<rparr>"

definition model_client :: smart_client where
  "model_client = SmartAccountClient (SafeSmartAccount ''0x2222222222222222222222222222222222222222'')"

definition vault_ready :: ui_state where
  "vault_ready =
     \<lparr>smartClient = Some model_client,
      status = ''Vault Active: 0x2222...2222'', loading = False, error = None\<rparr>"

text \<open>A guardian list of five well-formed addresses, and the values an action handed to
  the parameter encoder.\<close>

definition wellformed_guardians :: "string list" where
  "wellformed_guardians =
     [''0xdeadbeefdeadbeefdeadbeefdeadbeefdeadbeef'',
      ''0x1234567890123456789012345678901234567890'',
      ''0xfedcba9876543210fedcba9876543210fedcba98'',
      ''0xabcdef1234567890abcdef1234567890abcdef12'',
      ''0x0987654321fedcba0987654321fedcba09876543'']"

definition encoded_values :: "sdk_call list \<Rightarrow> (string \<times> js_value list) list" where
  "encoded_values calls =
     concat (map (\<lambda>e. case e of EncodeAbiParameters p vs \<Rightarrow> [(p, vs)] | _ \<Rightarrow> []) calls)"

text \<open>The data of the calls of every batch an action submitted.\<close>

definition batch_data :: "sdk_call list \<Rightarrow> string list list" where
  "batch_data calls = map (\<lambda>(cl, batch). map data batch) (submissions calls)"

text \<open>The reference instance whose account construction and submission reject with
  \<^verbatim>\<open>undefined\<close>.\<close>

definition nullish_sdk :: sdk where
  "nullish_sdk =
     model_sdk\<lparr>toSafeSmartAccount := (\<lambda>p. Inl Nullish),
               sendTransactions := (\<lambda>cl batch. Inl Nullish)\<rparr>"

section \<open>Facts about the JavaScript helpers\<close>

lemma slice_prefix: "0 \<le> n \<Longrightarrow> slice s 0 (Some n) = take (nat n) s"
  by (simp add: slice_def slice_index_def Let_def min_def)

lemma slice_suffix: "0 < n \<Longrightarrow> slice s (- int n) None = drop (length s - n) s"
  by (auto simp add: slice_def slice_index_def Let_def max_def nat_diff_distrib)

lemma message_or_default_nonempty: "message_or_default err = Some m \<Longrightarrow> m \<noteq> []"
  by (auto simp add: message_or_default_def split: js_error.splits option.splits if_splits)

lemma message_or_default_throws: "(message_or_default err = None) = (err = Nullish)"
  by (simp add: message_or_default_def split: js_error.split option.split)

section \<open>The guardian list of the sample usage\<close>

lemma sample_guardians_lengths: "map length sample_guardians = [42, 42, 42, 40, 40]"
  by (simp add: sample_guardians_def)

lemma sample_guardians_wellformed:
  "map isAddress sample_guardians = [True, True, True, False, False]"
  by (simp add: sample_guardians_def isAddress_def is_hex_def hex_value_def)

text \<open>
  C9, as the spec states it: the sample list has five addresses, exactly one of them is
  malformed, with 41 characters, and the other four are well-formed with 42. The list in
  \<^verbatim>\<open>GuardianButton\<close> has no address of 41 characters and only three of 42.
\<close>

theorem sample_guardians_no_41_character_address:
  "filter (\<lambda>g. length g = 41) sample_guardians = []
   \<and> length (filter (\<lambda>g. length g = 42) sample_guardians) = 3
   \<and> length (filter isAddress sample_guardians) = 3"
  by (simp add: sample_guardians_def isAddress_def is_hex_def hex_value_def)

text \<open>
  C9, amended: the guardian list that the guardian button passes to recovery enablement
  has exactly five addresses; the first three are well-formed addresses of 42 characters,
  the fourth and the fifth are malformed, each 40 characters long (38 hexadecimal digits
  after \<^verbatim>\<open>0x\<close>).
\<close>

theorem GuardianButton_guardian_list:
  "handlers (GuardianButton st) = [OnEnableRecovery sample_guardians]
   \<and> length sample_guardians = 5
   \<and> map length sample_guardians = [42, 42, 42, 40, 40]
   \<and> map isAddress sample_guardians = [True, True, True, False, False]"
  using sample_guardians_lengths sample_guardians_wellformed
  by (simp add: GuardianButton_def) (simp add: sample_guardians_def)

section \<open>Rendering\<close>

text \<open>
  C6: with no API key configured (undefined or empty), the component renders the
  configuration-error view and nothing else: the view has no button, and its texts are
  the two fixed lines of the error, whatever the state holds, so no status text and no
  control is reachable.
\<close>

theorem missing_api_key_renders_only_error:
  assumes "api_key_missing c"
  shows "ShadowVault c st = config_error_view
         \<and> handlers (ShadowVault c st) = []
         \<and> texts (ShadowVault c st) =
             [''Configuration Error'',
              ''Pimlico API key is missing. Please set the `API_KEY` environment variable to continue.'']"
  using assms by (simp add: ShadowVault_def config_error_view_def)

theorem missing_api_key_witness:
  "api_key_missing (model_constants\<lparr>PIMLICO_API_KEY := None\<rparr>)
   \<and> api_key_missing (model_constants\<lparr>PIMLICO_API_KEY := Some []\<rparr>)
   \<and> ShadowVault (model_constants\<lparr>PIMLICO_API_KEY := None\<rparr>) vault_ready = config_error_view
   \<and> handlers (ShadowVault (model_constants\<lparr>PIMLICO_API_KEY := None\<rparr>) vault_ready) = []"
proof -
  have h: "api_key_missing (model_constants\<lparr>PIMLICO_API_KEY := None\<rparr>)"
    by (simp add: api_key_missing_def)
  have h': "api_key_missing (model_constants\<lparr>PIMLICO_API_KEY := Some []\<rparr>)"
    by (simp add: api_key_missing_def)
  from missing_api_key_renders_only_error [OF h, of vault_ready] h h' show ?thesis
    by (simp add: config_error_view_def)
qed

text \<open>
  C5: while the client state is null, no button of the rendered component invokes
  recovery enablement, and recovery enablement called with a null client returns at
  once: it commits no state, makes no call, and so submits nothing.
\<close>

theorem recovery_needs_client:
  assumes "smartClient st = None"
  shows "OnEnableRecovery gs \<notin> set (handlers (ShadowVault c st))
         \<and> enableRecovery lib c guardians st = ([], [])
         \<and> submissions (snd (enableRecovery lib c guardians st)) = []
         \<and> final_state st (enableRecovery lib c guardians st) = st"
  using assms
  by (auto simp add: ShadowVault_def config_error_view_def enableRecovery_def submissions_def
      final_state_def split: option.split)

theorem recovery_needs_client_witness:
  "smartClient initial_state = None
   \<and> OnEnableRecovery sample_guardians \<notin> set (handlers (ShadowVault model_constants initial_state))
   \<and> enableRecovery model_sdk model_constants sample_guardians initial_state = ([], [])"
proof -
  have h: "smartClient initial_state = None" by (simp add: initial_state_def)
  from recovery_needs_client [OF h, of sample_guardians model_constants model_sdk sample_guardians] h
  show ?thesis by simp
qed

section \<open>The states an action commits\<close>

text \<open>
  An action that runs to its end commits the state it shows while in flight, then one
  state per setter called after the last \<^verbatim>\<open>await\<close>, the last of them by
  \<^verbatim>\<open>finally\<close>. When the thrown value is undefined or null the
  \<^verbatim>\<open>catch\<close> block stops at \<^verbatim>\<open>err.message\<close>.
\<close>

lemma createVault_ok:
  assumes "createVault_try lib c rnd = (calls, Inr client)"
  shows "createVault lib c rnd st =
     ([st\<lparr>loading := True, error := None, status := ''Initializing Biometric Vault...''\<rparr>,
       st\<lparr>loading := True, error := None, status := ''Initializing Biometric Vault...'',
          smartClient := Some client\<rparr>,
       st\<lparr>loading := True, error := None,
          status := ''Vault Active: '' @ take 6 (address (account client)) @ ''...''
                      @ drop (length (address (account client)) - 4) (address (account client)),
          smartClient := Some client\<rparr>,
       st\<lparr>loading := False, error := None,
          status := ''Vault Active: '' @ take 6 (address (account client)) @ ''...''
                      @ drop (length (address (account client)) - 4) (address (account client)),
          smartClient := Some client\<rparr>],
      calls)"
  using assms slice_prefix [of 6 "address (account client)"]
    slice_suffix [of 4 "address (account client)"]
  by (simp add: createVault_def setStatus_def setError_def setLoading_def setSmartClient_def Let_def)

lemma createVault_failed:
  assumes "createVault_try lib c rnd = (calls, Inl err)"
  shows "createVault lib c rnd st =
     (case message_or_default err of
        Some m \<Rightarrow>
          ([st\<lparr>loading := True, error := None, status := ''Initializing Biometric Vault...''\<rparr>,
            st\<lparr>loading := True, error := None, status := ''Initialization Failed''\<rparr>,
            st\<lparr>loading := True, error := Some m, status := ''Initialization Failed''\<rparr>,
            st\<lparr>loading := False, error := Some m, status := ''Initialization Failed''\<rparr>],
           calls @ [ConsoleError err])
      | None \<Rightarrow>
          ([st\<lparr>loading := True, error := None, status := ''Initializing Biometric Vault...''\<rparr>,
            st\<lparr>loading := False, error := None, status := ''Initializing Biometric Vault...''\<rparr>],
           calls @ [ConsoleError err, UnhandledRejection]))"
  using assms
  by (simp add: createVault_def setStatus_def setError_def setLoading_def Let_def
      split: option.split)

lemma enableRecovery_ok:
  assumes "smartClient st = Some client"
    and "enableRecovery_try lib c client guardians = (calls, Inr txHash)"
  shows "enableRecovery lib c guardians st =
     ([st\<lparr>loading := True, error := None, status := ''Configuring 3-of-5 Guardian Protocol...''\<rparr>,
       st\<lparr>loading := True, error := None,
          status := ''Recovery Protocol Live: '' @ take 10 txHash @ ''...''\<rparr>,
       st\<lparr>loading := False, error := None,
          status := ''Recovery Protocol Live: '' @ take 10 txHash @ ''...''\<rparr>],
      calls)"
  using assms slice_prefix [of 10 txHash]
  by (simp add: enableRecovery_def setStatus_def setError_def setLoading_def Let_def)

lemma enableRecovery_failed:
  assumes "smartClient st = Some client"
    and "enableRecovery_try lib c client guardians = (calls, Inl err)"
  shows "enableRecovery lib c guardians st =
     (case message_or_default err of
        Some m \<Rightarrow>
          ([st\<lparr>loading := True, error := None,
               status := ''Configuring 3-of-5 Guardian Protocol...''\<rparr>,
            st\<lparr>loading := True, error := None, status := ''Recovery Setup Failed''\<rparr>,
            st\<lparr>loading := True, error := Some m, status := ''Recovery Setup Failed''\<rparr>,
            st\<lparr>loading := False, error := Some m, status := ''Recovery Setup Failed''\<rparr>],
           calls @ [ConsoleError err])
      | None \<Rightarrow>
          ([st\<lparr>loading := True, error := None,
               status := ''Configuring 3-of-5 Guardian Protocol...''\<rparr>,
            st\<lparr>loading := True, error := None, status := ''Recovery Setup Failed''\<rparr>,
            st\<lparr>loading := False, error := None, status := ''Recovery Setup Failed''\<rparr>],
           calls @ [ConsoleError err, UnhandledRejection]))"
  using assms
  by (simp add: enableRecovery_def setStatus_def setError_def setLoading_def Let_def
      split: option.split)

section \<open>The reference SDK on concrete inputs\<close>

lemma is_hex_Nil: "is_hex []"
  by (simp add: is_hex_def)

lemma is_hex_Cons: "is_hex (ch # cs) = (hex_value ch \<noteq> None \<and> is_hex cs)"
  by (simp add: is_hex_def)

lemma is_hex_append: "is_hex (xs @ ys) = (is_hex xs \<and> is_hex ys)"
  by (simp add: is_hex_def)

lemma is_hex_zeros: "is_hex (replicate n CHR ''0'')"
  by (induction n) (simp_all add: is_hex_def hex_value_def)

lemma is_hex_pad_left: "is_hex (pad_left n s) = is_hex s"
  by (simp add: pad_left_def is_hex_append is_hex_zeros)

lemma length_pad_left: "length s \<le> n \<Longrightarrow> length (pad_left n s) = n"
  by (simp add: pad_left_def)

lemma message_of_invalid_address: "message_or_default invalid_address = Some ''Address is invalid.''"
  by (simp add: message_or_default_def invalid_address_def)

lemma model_rejects_sample_guardians:
  "encodeAbiParameters model_sdk ''address[] guardians, uint256 threshold, uint256 delay''
     (setup_values sample_guardians) = Inl invalid_address"
  by (simp add: model_sdk_def model_encodeAbiParameters_def setup_values_def
      sample_guardians_def isAddress_def)

lemma model_accepts_wellformed_guardians:
  "encodeAbiParameters model_sdk ''address[] guardians, uint256 threshold, uint256 delay''
     [JArr (map JStr wellformed_guardians), JBigInt 3, JBigInt 172800] =
   Inr (''0x'' @ abi_uint 96 @ abi_uint 3 @ abi_uint 172800
          @ abi_uint (length wellformed_guardians)
          @ concat (map abi_address wellformed_guardians))"
  by (simp add: model_sdk_def model_encodeAbiParameters_def
      wellformed_guardians_def isAddress_def is_hex_Cons is_hex_Nil hex_value_def)

lemma model_encodes_enableModule:
  "encodeFunctionData model_sdk [''function enableModule(address module)''] ''enableModule''
     [JStr (RECOVERY_MODULE_ADDR model_constants)] =
   Inr (''0x610b5925'' @ abi_address ''0x1111111111111111111111111111111111111111'')"
  by (simp add: model_sdk_def model_encodeFunctionData_def model_constants_def
      isAddress_def is_hex_Cons is_hex_Nil hex_value_def)

lemma setup_data_is_hex:
  "is_hex (abi_uint 96 @ abi_uint 3 @ abi_uint 172800 @ abi_uint (length wellformed_guardians)
          @ concat (map abi_address wellformed_guardians))"
  by (simp add: is_hex_append abi_uint_def abi_address_def is_hex_pad_left
      wellformed_guardians_def hex_digit_def to_lower_hex_def is_hex_Cons is_hex_Nil hex_value_def)

lemma setup_data_length:
  "length (abi_uint 96 @ abi_uint 3 @ abi_uint 172800 @ abi_uint (length wellformed_guardians)
          @ concat (map abi_address wellformed_guardians)) = 576"
  by (simp add: abi_uint_def abi_address_def length_pad_left wellformed_guardians_def)

lemma model_encodes_setup:
  "encodeFunctionData model_sdk [''function setup(bytes calldata data)''] ''setup''
     [JStr (''0x'' @ abi_uint 96 @ abi_uint 3 @ abi_uint 172800
          @ abi_uint (length wellformed_guardians)
          @ concat (map abi_address wellformed_guardians))] =
   Inr (''0x9ded06df'' @ abi_uint 32
          @ abi_bytes (''0x'' @ abi_uint 96 @ abi_uint 3 @ abi_uint 172800
                         @ abi_uint (length wellformed_guardians)
                         @ concat (map abi_address wellformed_guardians)))"
  using setup_data_is_hex setup_data_length
  by (simp add: model_sdk_def model_encodeFunctionData_def)

lemma model_accepts_reversed_guardians:
  "encodeAbiParameters model_sdk ''address[] guardians, uint256 threshold, uint256 delay''
     [JArr (map JStr (rev wellformed_guardians)), JBigInt 3, JBigInt 172800] =
   Inr (''0x'' @ abi_uint 96 @ abi_uint 3 @ abi_uint 172800
          @ abi_uint (length wellformed_guardians)
          @ concat (map abi_address (rev wellformed_guardians)))"
  by (simp add: model_sdk_def model_encodeAbiParameters_def
      wellformed_guardians_def isAddress_def is_hex_Cons is_hex_Nil hex_value_def)

lemma reversed_setup_data_is_hex:
  "is_hex (abi_uint 96 @ abi_uint 3 @ abi_uint 172800 @ abi_uint (length wellformed_guardians)
          @ concat (map abi_address (rev wellformed_guardians)))"
  by (simp add: is_hex_append abi_uint_def abi_address_def is_hex_pad_left
      wellformed_guardians_def hex_digit_def to_lower_hex_def is_hex_Cons is_hex_Nil hex_value_def)

lemma reversed_setup_data_length:
  "length (abi_uint 96 @ abi_uint 3 @ abi_uint 172800 @ abi_uint (length wellformed_guardians)
          @ concat (map abi_address (rev wellformed_guardians))) = 576"
  by (simp add: abi_uint_def abi_address_def length_pad_left wellformed_guardians_def)

lemma model_encodes_reversed_setup:
  "encodeFunctionData model_sdk [''function setup(bytes calldata data)''] ''setup''
     [JStr (''0x'' @ abi_uint 96 @ abi_uint 3 @ abi_uint 172800
          @ abi_uint (length wellformed_guardians)
          @ concat (map abi_address (rev wellformed_guardians)))] =
   Inr (''0x9ded06df'' @ abi_uint 32
          @ abi_bytes (''0x'' @ abi_uint 96 @ abi_uint 3 @ abi_uint 172800
                         @ abi_uint (length wellformed_guardians)
                         @ concat (map abi_address (rev wellformed_guardians))))"
  using reversed_setup_data_is_hex reversed_setup_data_length
  by (simp add: model_sdk_def model_encodeFunctionData_def)

lemma threshold_and_delay_words:
  "abi_uint 3 = replicate 63 CHR ''0'' @ ''3''
   \<and> abi_uint 172800 = replicate 59 CHR ''0'' @ ''2a300''"
  by (simp add: abi_uint_def pad_left_def hex_digit_def)

section \<open>Recovery enablement\<close>

lemma enableRecovery_try_submits:
  assumes "encodeAbiParameters lib ''address[] guardians, uint256 threshold, uint256 delay''
             (setup_values guardians) = Inr setupData"
    and "encodeFunctionData lib [''function enableModule(address module)''] ''enableModule''
           [JStr (RECOVERY_MODULE_ADDR c)] = Inr moduleSetupData"
    and "encodeFunctionData lib [''function setup(bytes calldata data)''] ''setup''
           [JStr setupData] = Inr setupCall"
  shows "submissions (fst (enableRecovery_try lib c client guardians)) =
           [(client, [\<lparr>to = address (account client), data = moduleSetupData\<rparr>,
                      \<lparr>to = RECOVERY_MODULE_ADDR c, data = setupCall\<rparr>])]
         \<and> snd (enableRecovery_try lib c client guardians) =
             sendTransactions lib client
               [\<lparr>to = address (account client), data = moduleSetupData\<rparr>,
                \<lparr>to = RECOVERY_MODULE_ADDR c, data = setupCall\<rparr>]"
  using assms by (simp add: enableRecovery_try_def submissions_def Let_def)

lemma submissions_append: "submissions (xs @ ys) = submissions xs @ submissions ys"
  by (simp add: submissions_def)

lemma submissions_after_catch:
  "submissions [ConsoleError err] = []"
  "submissions [ConsoleError err, UnhandledRejection] = []"
  by (simp_all add: submissions_def)

text \<open>
  C1, as the spec states it: for every existing client and every guardian list, recovery
  enablement submits two calls as one batch. With the guardian list of the sample usage
  the parameter encoder rejects the fourth address, the error is caught, and nothing is
  submitted.
\<close>

theorem sample_guardians_are_not_submitted:
  "smartClient vault_ready = Some model_client
   \<and> submissions (snd (enableRecovery model_sdk model_constants sample_guardians vault_ready)) = []
   \<and> status (final_state vault_ready
                (enableRecovery model_sdk model_constants sample_guardians vault_ready)) =
       ''Recovery Setup Failed''"
proof -
  have c: "smartClient vault_ready = Some model_client"
    by (simp add: vault_ready_def)
  have t: "enableRecovery_try model_sdk model_constants model_client sample_guardians =
             ([EncodeAbiParameters ''address[] guardians, uint256 threshold, uint256 delay''
                 (setup_values sample_guardians)], Inl invalid_address)"
    using model_rejects_sample_guardians by (simp add: enableRecovery_try_def)
  from c enableRecovery_failed [OF c t] show ?thesis
    by (simp add: final_state_def submissions_def message_of_invalid_address)
qed

text \<open>
  C1, amended: for every existing client and every guardian list for which the three ABI
  encodings succeed, recovery enablement submits exactly one batch of exactly two calls:
  the encoding of \<^verbatim>\<open>enableModule(address)\<close> with the recovery-module address as
  argument, addressed to the smart account's own address, and the encoding of
  \<^verbatim>\<open>setup(bytes)\<close>, addressed to the recovery-module address, whose argument is
  the encoding of (address[] guardians, uint256 threshold, uint256 delay) with the
  guardians, 3 and 172800. When the submission returns a hash, the status becomes
  \<^verbatim>\<open>Recovery Protocol Live: \<close>, the first 10 characters of the hash and three
  dots; when it fails, \<^verbatim>\<open>Recovery Setup Failed\<close>.
\<close>

theorem enableRecovery_submits_batch:
  assumes "smartClient st = Some client"
    and "encodeAbiParameters lib ''address[] guardians, uint256 threshold, uint256 delay''
           [JArr (map JStr guardians), JBigInt 3, JBigInt 172800] = Inr setupData"
    and "encodeFunctionData lib [''function enableModule(address module)''] ''enableModule''
           [JStr (RECOVERY_MODULE_ADDR c)] = Inr moduleSetupData"
    and "encodeFunctionData lib [''function setup(bytes calldata data)''] ''setup''
           [JStr setupData] = Inr setupCall"
  shows "submissions (snd (enableRecovery lib c guardians st)) =
           [(client, [\<lparr>to = address (account client), data = moduleSetupData\<rparr>,
                      \<lparr>to = RECOVERY_MODULE_ADDR c, data = setupCall\<rparr>])]
         \<and> (case sendTransactions lib client
                    [\<lparr>to = address (account client), data = moduleSetupData\<rparr>,
                     \<lparr>to = RECOVERY_MODULE_ADDR c, data = setupCall\<rparr>] of
               Inr txHash \<Rightarrow>
                 status (final_state st (enableRecovery lib c guardians st)) =
                   ''Recovery Protocol Live: '' @ take 10 txHash @ ''...''
             | Inl err \<Rightarrow>
                 status (final_state st (enableRecovery lib c guardians st)) =
                   ''Recovery Setup Failed'')"
proof -
  have sv: "setup_values guardians = [JArr (map JStr guardians), JBigInt 3, JBigInt 172800]"
    by (simp add: setup_values_def)
  note t = enableRecovery_try_submits [of lib guardians setupData c moduleSetupData setupCall client,
      unfolded sv, OF assms(2) assms(3) assms(4)]
  show ?thesis
  proof (cases "enableRecovery_try lib c client guardians")
    case (Pair calls r)
    with t have sub: "submissions calls =
           [(client, [\<lparr>to = address (account client), data = moduleSetupData\<rparr>,
                      \<lparr>to = RECOVERY_MODULE_ADDR c, data = setupCall\<rparr>])]"
      and send: "sendTransactions lib client
                   [\<lparr>to = address (account client), data = moduleSetupData\<rparr>,
                    \<lparr>to = RECOVERY_MODULE_ADDR c, data = setupCall\<rparr>] = r"
      by simp_all
    show ?thesis
    proof (cases r)
      case (Inl err)
      with Pair sub send enableRecovery_failed [OF assms(1), of lib c guardians calls err]
      show ?thesis
        by (simp add: final_state_def submissions_append submissions_after_catch
            split: option.split)
    next
      case (Inr txHash)
      with Pair sub send enableRecovery_ok [OF assms(1), of lib c guardians calls txHash]
      show ?thesis by (simp add: final_state_def)
    qed
  qed
qed

theorem enableRecovery_submits_batch_witness:
  "smartClient vault_ready = Some model_client
   \<and> submissions (snd (enableRecovery model_sdk model_constants wellformed_guardians vault_ready)) =
       [(model_client,
         [\<lparr>to = ''0x2222222222222222222222222222222222222222'',
           data = ''0x610b5925'' @ abi_address ''0x1111111111111111111111111111111111111111''\<rparr>,
          \<lparr>to = ''0x1111111111111111111111111111111111111111'',
           data = ''0x9ded06df'' @ abi_uint 32
                    @ abi_bytes (''0x'' @ abi_uint 96 @ abi_uint 3 @ abi_uint 172800
                                   @ abi_uint (length wellformed_guardians)
                                   @ concat (map abi_address wellformed_guardians))\<rparr>])]
   \<and> status (final_state vault_ready
                (enableRecovery model_sdk model_constants wellformed_guardians vault_ready)) =
       ''Recovery Protocol Live: 0x77777777...''"
proof -
  have c: "smartClient vault_ready = Some model_client"
    by (simp add: vault_ready_def)
  have s: "sendTransactions model_sdk = (\<lambda>cl batch. Inr (''0x'' @ replicate 64 CHR ''7''))"
    by (simp add: model_sdk_def)
  have r: "take 10 (''0x'' @ replicate 64 CHR ''7'') = ''0x77777777''"
    by (simp add: numeral_eq_Suc)
  from enableRecovery_submits_batch [OF c model_accepts_wellformed_guardians
      model_encodes_enableModule model_encodes_setup] c
  show ?thesis
    unfolding s using r by (simp add: model_client_def model_constants_def)
qed

lemma encoded_values_try:
  "encoded_values (fst (enableRecovery_try lib c client guardians)) =
     [(''address[] guardians, uint256 threshold, uint256 delay'', setup_values guardians)]"
  by (simp add: enableRecovery_try_def encoded_values_def Let_def split: sum.split)

lemma encoded_values_after_catch:
  "encoded_values (xs @ [ConsoleError err]) = encoded_values xs"
  "encoded_values (xs @ [ConsoleError err, UnhandledRejection]) = encoded_values xs"
  by (simp_all add: encoded_values_def)

lemma encoded_values_enableRecovery:
  assumes "smartClient st = Some client"
  shows "encoded_values (snd (enableRecovery lib c guardians st)) =
     [(''address[] guardians, uint256 threshold, uint256 delay'',
       [JArr (map JStr guardians), JBigInt 3, JBigInt 172800])]"
proof (cases "enableRecovery_try lib c client guardians")
  case (Pair calls r)
  with encoded_values_try [of lib c client guardians]
  have c: "encoded_values calls =
     [(''address[] guardians, uint256 threshold, uint256 delay'', setup_values guardians)]"
    by simp
  have sv: "setup_values guardians = [JArr (map JStr guardians), JBigInt 3, JBigInt 172800]"
    by (simp add: setup_values_def)
  show ?thesis
  proof (cases r)
    case (Inl err)
    with Pair c sv enableRecovery_failed [OF assms, of lib c guardians calls err]
    show ?thesis by (simp add: encoded_values_after_catch split: option.split)
  next
    case (Inr txHash)
    with Pair c sv enableRecovery_ok [OF assms, of lib c guardians calls txHash]
    show ?thesis by simp
  qed
qed

lemma batch_data_enableRecovery:
  assumes "smartClient st = Some client"
    and "encodeAbiParameters lib ''address[] guardians, uint256 threshold, uint256 delay''
           [JArr (map JStr guardians), JBigInt 3, JBigInt 172800] = Inr setupData"
    and "encodeFunctionData lib [''function enableModule(address module)''] ''enableModule''
           [JStr (RECOVERY_MODULE_ADDR c)] = Inr moduleSetupData"
    and "encodeFunctionData lib [''function setup(bytes calldata data)''] ''setup''
           [JStr setupData] = Inr setupCall"
  shows "batch_data (snd (enableRecovery lib c guardians st)) = [[moduleSetupData, setupCall]]"
proof -
  have sv: "setup_values guardians = [JArr (map JStr guardians), JBigInt 3, JBigInt 172800]"
    by (simp add: setup_values_def)
  note t = enableRecovery_try_submits [of lib guardians setupData c moduleSetupData setupCall client,
      unfolded sv, OF assms(2) assms(3) assms(4)]
  show ?thesis
  proof (cases "enableRecovery_try lib c client guardians")
    case (Pair calls r)
    with t have sub: "submissions calls =
           [(client, [\<lparr>to = address (account client), data = moduleSetupData\<rparr>,
                      \<lparr>to = RECOVERY_MODULE_ADDR c, data = setupCall\<rparr>])]"
      by simp
    show ?thesis
    proof (cases r)
      case (Inl err)
      with Pair sub enableRecovery_failed [OF assms(1), of lib c guardians calls err]
      show ?thesis
        by (simp add: batch_data_def submissions_append submissions_after_catch
            split: option.split)
    next
      case (Inr txHash)
      with Pair sub enableRecovery_ok [OF assms(1), of lib c guardians calls txHash]
      show ?thesis by (simp add: batch_data_def)
    qed
  qed
qed

text \<open>
  C3, as the spec states it: for every guardian list of five elements recovery
  enablement encodes threshold 3 and delay 172800 in the setup payload. With the
  five-element list of the sample usage the parameter encoder raises on the call that
  would encode them: the only other call is \<^verbatim>\<open>console.error\<close>, no
  \<^verbatim>\<open>setup(bytes)\<close> data is built and nothing is submitted.
\<close>

theorem sample_guardians_build_no_setup_payload:
  "length sample_guardians = 5
   \<and> smartClient vault_ready = Some model_client
   \<and> snd (enableRecovery model_sdk model_constants sample_guardians vault_ready) =
       [EncodeAbiParameters ''address[] guardians, uint256 threshold, uint256 delay''
          [JArr (map JStr sample_guardians), JBigInt 3, JBigInt 172800],
        ConsoleError invalid_address]
   \<and> batch_data (snd (enableRecovery model_sdk model_constants sample_guardians vault_ready)) = []"
proof -
  have c: "smartClient vault_ready = Some model_client"
    by (simp add: vault_ready_def)
  have t: "enableRecovery_try model_sdk model_constants model_client sample_guardians =
             ([EncodeAbiParameters ''address[] guardians, uint256 threshold, uint256 delay''
                 (setup_values sample_guardians)], Inl invalid_address)"
    using model_rejects_sample_guardians by (simp add: enableRecovery_try_def)
  have l: "length sample_guardians = 5"
    by (simp add: sample_guardians_def)
  from c l enableRecovery_failed [OF c t] show ?thesis
    by (simp add: message_of_invalid_address setup_values_def batch_data_def submissions_def)
qed

text \<open>
  C3, amended: for every guardian list of five elements and every permutation of it for
  which the ABI encodings succeed, recovery enablement (with a client) calls the
  parameter encoder once, with the guardians in the order given, the threshold 3 and the
  delay 172800, and the batch it submits carries, as the data of its second call, the
  encoding of \<^verbatim>\<open>setup(bytes)\<close> applied to what the parameter encoder returned
  for exactly these values. The threshold and the delay handed to the encoder are the
  same for both orders of the guardians.
\<close>

theorem setup_payload_threshold_and_delay:
  assumes "length gs = 5" and "mset gs' = mset gs" and "smartClient st = Some client"
    and "encodeFunctionData lib [''function enableModule(address module)''] ''enableModule''
           [JStr (RECOVERY_MODULE_ADDR c)] = Inr moduleSetupData"
    and "encodeAbiParameters lib ''address[] guardians, uint256 threshold, uint256 delay''
           [JArr (map JStr gs), JBigInt 3, JBigInt 172800] = Inr setupData"
    and "encodeFunctionData lib [''function setup(bytes calldata data)''] ''setup''
           [JStr setupData] = Inr setupCall"
    and "encodeAbiParameters lib ''address[] guardians, uint256 threshold, uint256 delay''
           [JArr (map JStr gs'), JBigInt 3, JBigInt 172800] = Inr setupData'"
    and "encodeFunctionData lib [''function setup(bytes calldata data)''] ''setup''
           [JStr setupData'] = Inr setupCall'"
  shows "encoded_values (snd (enableRecovery lib c gs st)) =
           [(''address[] guardians, uint256 threshold, uint256 delay'',
             [JArr (map JStr gs), JBigInt 3, JBigInt 172800])]
         \<and> batch_data (snd (enableRecovery lib c gs st)) = [[moduleSetupData, setupCall]]
         \<and> encoded_values (snd (enableRecovery lib c gs' st)) =
           [(''address[] guardians, uint256 threshold, uint256 delay'',
             [JArr (map JStr gs'), JBigInt 3, JBigInt 172800])]
         \<and> batch_data (snd (enableRecovery lib c gs' st)) = [[moduleSetupData, setupCall']]"
  using encoded_values_enableRecovery [OF assms(3)]
    batch_data_enableRecovery [OF assms(3) assms(5) assms(4) assms(6)]
    batch_data_enableRecovery [OF assms(3) assms(7) assms(4) assms(8)]
  by simp

theorem setup_payload_threshold_and_delay_witness:
  "length wellformed_guardians = 5
   \<and> mset (rev wellformed_guardians) = mset wellformed_guardians
   \<and> smartClient vault_ready = Some model_client
   \<and> batch_data (snd (enableRecovery model_sdk model_constants wellformed_guardians vault_ready)) =
       [[''0x610b5925'' @ abi_address ''0x1111111111111111111111111111111111111111'',
         ''0x9ded06df'' @ abi_uint 32
           @ abi_bytes (''0x'' @ abi_uint 96 @ abi_uint 3 @ abi_uint 172800
                          @ abi_uint (length wellformed_guardians)
                          @ concat (map abi_address wellformed_guardians))]]
   \<and> batch_data (snd (enableRecovery model_sdk model_constants (rev wellformed_guardians)
                          vault_ready)) =
       [[''0x610b5925'' @ abi_address ''0x1111111111111111111111111111111111111111'',
         ''0x9ded06df'' @ abi_uint 32
           @ abi_bytes (''0x'' @ abi_uint 96 @ abi_uint 3 @ abi_uint 172800
                          @ abi_uint (length wellformed_guardians)
                          @ concat (map abi_address (rev wellformed_guardians)))]]
   \<and> encoded_values (snd (enableRecovery model_sdk model_constants (rev wellformed_guardians)
                               vault_ready)) =
         [(''address[] guardians, uint256 threshold, uint256 delay'',
           [JArr (map JStr (rev wellformed_guardians)), JBigInt 3, JBigInt 172800])]
   \<and> abi_uint 3 = replicate 63 CHR ''0'' @ ''3''
   \<and> abi_uint 172800 = replicate 59 CHR ''0'' @ ''2a300''"
proof -
  have l: "length wellformed_guardians = 5"
    by (simp add: wellformed_guardians_def)
  have p: "mset (rev wellformed_guardians) = mset wellformed_guardians"
    by simp
  have c: "smartClient vault_ready = Some model_client"
    by (simp add: vault_ready_def)
  from setup_payload_threshold_and_delay [OF l p c model_encodes_enableModule
      model_accepts_wellformed_guardians model_encodes_setup
      model_accepts_reversed_guardians model_encodes_reversed_setup]
    l p c threshold_and_delay_words
  show ?thesis by simp
qed

section \<open>The loading flag and the error message\<close>

text \<open>
  C7: of the states an action commits, the first and every other one but the last has the
  loading flag set and the last has it cleared, on the success path and on the failure path alike, for
  vault creation and for recovery enablement with a client. Recovery enablement without a
  client starts no action and commits nothing.
\<close>

theorem loading_flag_tracks_action:
  "fst (createVault lib c rnd st) \<noteq> []
   \<and> loading (hd (fst (createVault lib c rnd st)))
   \<and> list_all loading (butlast (fst (createVault lib c rnd st)))
   \<and> \<not> loading (last (fst (createVault lib c rnd st)))
   \<and> (smartClient st \<noteq> None \<longrightarrow>
        fst (enableRecovery lib c guardians st) \<noteq> []
        \<and> loading (hd (fst (enableRecovery lib c guardians st)))
        \<and> list_all loading (butlast (fst (enableRecovery lib c guardians st)))
        \<and> \<not> loading (last (fst (enableRecovery lib c guardians st))))
   \<and> (smartClient st = None \<longrightarrow> fst (enableRecovery lib c guardians st) = [])"
proof -
  have cv: "fst (createVault lib c rnd st) \<noteq> []
      \<and> loading (hd (fst (createVault lib c rnd st)))
      \<and> list_all loading (butlast (fst (createVault lib c rnd st)))
      \<and> \<not> loading (last (fst (createVault lib c rnd st)))"
  proof (cases "createVault_try lib c rnd")
    case (Pair calls r)
    then show ?thesis
      using createVault_ok [of lib c rnd calls _ st] createVault_failed [of lib c rnd calls _ st]
      by (cases r) (simp_all split: option.split)
  qed
  have er: "fst (enableRecovery lib c guardians st) \<noteq> []
      \<and> loading (hd (fst (enableRecovery lib c guardians st)))
      \<and> list_all loading (butlast (fst (enableRecovery lib c guardians st)))
      \<and> \<not> loading (last (fst (enableRecovery lib c guardians st)))"
    if "smartClient st = Some client" for client
  proof (cases "enableRecovery_try lib c client guardians")
    case (Pair calls r)
    then show ?thesis
      using enableRecovery_ok [OF that, of lib c guardians calls]
        enableRecovery_failed [OF that, of lib c guardians calls]
      by (cases r) (simp_all split: option.split)
  qed
  have none: "fst (enableRecovery lib c guardians st) = []" if "smartClient st = None"
    using that by (simp add: enableRecovery_def)
  from cv er none show ?thesis by auto
qed

theorem loading_flag_witness:
  "smartClient vault_ready \<noteq> None
   \<and> fst (enableRecovery model_sdk model_constants sample_guardians vault_ready) \<noteq> []
   \<and> list_all loading
        (butlast (fst (enableRecovery model_sdk model_constants sample_guardians vault_ready)))
   \<and> \<not> loading (last (fst (enableRecovery model_sdk model_constants sample_guardians vault_ready)))
   \<and> smartClient initial_state = None
   \<and> fst (enableRecovery model_sdk model_constants sample_guardians initial_state) = []"
proof -
  have c: "smartClient vault_ready \<noteq> None"
    by (simp add: vault_ready_def)
  have n: "smartClient initial_state = None"
    by (simp add: initial_state_def)
  from loading_flag_tracks_action [of model_sdk model_constants "\<lambda>i. 0" vault_ready sample_guardians]
    loading_flag_tracks_action [of model_sdk model_constants "\<lambda>i. 0" initial_state sample_guardians]
    c n
  show ?thesis by simp
qed

text \<open>
  C10: the first state an action commits, the one shown while it is in flight, has no
  error message, whatever message the state held before; afterwards the message is either
  absent or the message of the failure of this very action. This holds for vault creation
  and for recovery enablement with a client; without a client recovery enablement starts
  no action and commits nothing. (When the thrown value is undefined or null the action
  commits fewer states, none of them with a message.)
\<close>

theorem error_cleared_at_start:
  "error (hd (fst (createVault lib c rnd st))) = None
   \<and> (case snd (createVault_try lib c rnd) of
         Inr client \<Rightarrow> map error (fst (createVault lib c rnd st)) = [None, None, None, None]
       | Inl err \<Rightarrow>
           map error (fst (createVault lib c rnd st)) =
             (case message_or_default err of
                Some m \<Rightarrow> [None, None, Some m, Some m]
              | None \<Rightarrow> [None, None]))
   \<and> (case smartClient st of
         None \<Rightarrow> fst (enableRecovery lib c guardians st) = []
       | Some client \<Rightarrow>
           error (hd (fst (enableRecovery lib c guardians st))) = None
           \<and> (case snd (enableRecovery_try lib c client guardians) of
                 Inr txHash \<Rightarrow>
                   map error (fst (enableRecovery lib c guardians st)) = [None, None, None]
               | Inl err \<Rightarrow>
                   map error (fst (enableRecovery lib c guardians st)) =
                     (case message_or_default err of
                        Some m \<Rightarrow> [None, None, Some m, Some m]
                      | None \<Rightarrow> [None, None, None])))"
proof -
  have cv: "error (hd (fst (createVault lib c rnd st))) = None
   \<and> (case snd (createVault_try lib c rnd) of
         Inr client \<Rightarrow> map error (fst (createVault lib c rnd st)) = [None, None, None, None]
       | Inl err \<Rightarrow>
           map error (fst (createVault lib c rnd st)) =
             (case message_or_default err of
                Some m \<Rightarrow> [None, None, Some m, Some m]
              | None \<Rightarrow> [None, None]))"
  proof (cases "createVault_try lib c rnd")
    case (Pair calls r)
    then show ?thesis
      using createVault_ok [of lib c rnd calls _ st] createVault_failed [of lib c rnd calls _ st]
      by (cases r) (simp_all split: option.split)
  qed
  have er: "case smartClient st of
         None \<Rightarrow> fst (enableRecovery lib c guardians st) = []
       | Some client \<Rightarrow>
           error (hd (fst (enableRecovery lib c guardians st))) = None
           \<and> (case snd (enableRecovery_try lib c client guardians) of
                 Inr txHash \<Rightarrow>
                   map error (fst (enableRecovery lib c guardians st)) = [None, None, None]
               | Inl err \<Rightarrow>
                   map error (fst (enableRecovery lib c guardians st)) =
                     (case message_or_default err of
                        Some m \<Rightarrow> [None, None, Some m, Some m]
                      | None \<Rightarrow> [None, None, None]))"
  proof (cases "smartClient st")
    case None
    then show ?thesis by (simp add: enableRecovery_def)
  next
    case (Some client)
    show ?thesis
    proof (cases "enableRecovery_try lib c client guardians")
      case (Pair calls r)
      then show ?thesis
        using Some enableRecovery_ok [OF Some, of lib c guardians calls]
          enableRecovery_failed [OF Some, of lib c guardians calls]
        by (cases r) (simp_all split: option.split)
    qed
  qed
  from cv er show ?thesis by simp
qed

section \<open>Owner provisioning\<close>

lemma getBiometricOwner_result:
  "snd (getBiometricOwner lib rnd) = privateKeyToAccount lib (random_private_key rnd)
   \<and> take 3 (fst (getBiometricOwner lib rnd)) =
       [ConsoleLog [''Simulating biometric prompt for owner key...''], SetTimeout 1500,
        PrivateKeyToAccount (random_private_key rnd)]"
  by (simp add: getBiometricOwner_def Let_def split: sum.split)

lemma below_16_cases:
  "(k::nat) < 16 \<Longrightarrow> k = 0 \<or> k = 1 \<or> k = 2 \<or> k = 3 \<or> k = 4 \<or> k = 5 \<or> k = 6 \<or> k = 7
     \<or> k = 8 \<or> k = 9 \<or> k = 10 \<or> k = 11 \<or> k = 12 \<or> k = 13 \<or> k = 14 \<or> k = 15"
  by arith

lemma hex_value_hex_digit: "hex_value (hex_digit d) = Some (d mod 16)"
proof -
  have "d mod 16 < 16" by simp
  from below_16_cases [OF this] show ?thesis
    by (elim disjE) (simp_all add: hex_digit_def hex_value_def)
qed

lemma random_nibble_digit:
  assumes "0 \<le> r" and "r < 1"
  shows "random_nibble r = [hex_digit (nat \<lfloor>r * 16\<rfloor>)]"
proof -
  from assms have "0 \<le> \<lfloor>r * 16\<rfloor>" and "\<lfloor>r * 16\<rfloor> < 16"
    by (simp_all add: floor_less_iff)
  then show ?thesis
    by (simp add: random_nibble_def toString16_def nat_less_iff)
qed

lemma random_private_key_shape:
  assumes "\<And>i. i < 64 \<Longrightarrow> 0 \<le> rnd i \<and> rnd i < 1"
  shows "length (random_private_key rnd) = 66
         \<and> take 2 (random_private_key rnd) = ''0x''
         \<and> is_hex (drop 2 (random_private_key rnd))"
proof -
  have "map (\<lambda>i. random_nibble (rnd i)) [0..<64] =
        map (\<lambda>i. [hex_digit (nat \<lfloor>rnd i * 16\<rfloor>)]) [0..<64]"
    using assms by (intro map_cong refl) (simp add: random_nibble_digit)
  then have "random_private_key rnd =
        ''0x'' @ concat (map (\<lambda>i. [hex_digit (nat \<lfloor>rnd i * 16\<rfloor>)]) [0..<64])"
    by (simp only: random_private_key_def)
  then have "random_private_key rnd =
        ''0x'' @ map (\<lambda>i. hex_digit (nat \<lfloor>rnd i * 16\<rfloor>)) [0..<64]"
    by (simp only: concat_map_singleton)
  then show ?thesis
    by (simp add: is_hex_def list_all_iff hex_value_hex_digit)
qed

lemma random_private_key_const:
  "random_private_key (\<lambda>i. r) = ''0x'' @ concat (replicate 64 (random_nibble r))"
  by (simp add: random_private_key_def map_replicate_const)

lemma concat_replicate_single: "concat (replicate n [x]) = replicate n x"
  by (induction n) simp_all

lemma random_nibble_0: "random_nibble 0 = ''0''"
  by (simp add: random_nibble_def toString16_def hex_digit_def)

lemma random_nibble_half: "random_nibble (1 / 2) = ''8''"
  by (simp add: random_nibble_def toString16_def hex_digit_def)

lemma zero_key: "random_private_key (\<lambda>i. 0) = ''0x'' @ replicate 64 CHR ''0''"
  by (simp only: random_private_key_const random_nibble_0 concat_replicate_single)

lemma hex_to_nat_zeros: "hex_to_nat acc (replicate n CHR ''0'') = Some (acc * 16 ^ n)"
  by (induction n arbitrary: acc) (simp_all add: hex_value_def)

lemma model_rejects_zero_key:
  "privateKeyToAccount model_sdk (''0x'' @ replicate 64 CHR ''0'') = Inl invalid_private_key"
  by (simp add: model_sdk_def model_privateKeyToAccount_def hex_to_nat_zeros)

lemma zero_key_owner:
  "getBiometricOwner model_sdk (\<lambda>i. 0) =
     ([ConsoleLog [''Simulating biometric prompt for owner key...''],
       SetTimeout 1500,
       PrivateKeyToAccount (''0x'' @ replicate 64 CHR ''0'')],
      Inl invalid_private_key)"
  using model_rejects_zero_key by (simp add: getBiometricOwner_def zero_key)

lemma half_key:
  "random_private_key (\<lambda>i. 1 / 2) =
     ''0x8888888888888888888888888888888888888888888888888888888888888888''"
  by (simp only: random_private_key_const random_nibble_half concat_replicate_single)
     (simp add: numeral_eq_Suc)

lemma model_accepts_half_key:
  "privateKeyToAccount model_sdk
     ''0x8888888888888888888888888888888888888888888888888888888888888888'' =
   Inr (PrivateKeyAccount ''0x8888888888888888888888888888888888888888'')"
  by (simp add: model_sdk_def model_privateKeyToAccount_def hex_value_def secp256k1_n_def)

lemma half_key_vault:
  "snd (createVault_try model_sdk model_constants (\<lambda>i. 1 / 2)) =
     Inr (SmartAccountClient (SafeSmartAccount ''0x8888888888888888888888888888888888888888''))"
  using model_accepts_half_key
  by (simp add: createVault_try_def getBiometricOwner_def half_key Let_def)
     (simp add: model_sdk_def safeAccountParams_def smartAccountClientParams_def)

lemma random_nibble_top: "random_nibble (15 / 16) = ''f''"
  by (simp add: random_nibble_def toString16_def hex_digit_def)

lemma top_key:
  "random_private_key (\<lambda>i. 15 / 16) =
     ''0xffffffffffffffffffffffffffffffffffffffffffffffffffffffffffffffff''"
  by (simp only: random_private_key_const random_nibble_top concat_replicate_single)
     (simp add: numeral_eq_Suc)

lemma model_rejects_top_key:
  "privateKeyToAccount model_sdk
     ''0xffffffffffffffffffffffffffffffffffffffffffffffffffffffffffffffff'' =
   Inl invalid_private_key"
  by (simp add: model_sdk_def model_privateKeyToAccount_def hex_value_def secp256k1_n_def)

text \<open>
  C8: owner provisioning takes no input but the random draws, waits 1500 ms, and returns
  what \<^verbatim>\<open>privateKeyToAccount\<close> returns for the key it drew. The key is any
  64 hexadecimal digits; it is not checked to be a private key of the curve. When every
  draw is 0 the key is zero, and when every draw is at least 15/16 the key is above the
  group order: the account constructor rejects both, and owner provisioning fails.
\<close>

theorem getBiometricOwner_fails_on_invalid_key:
  "random_private_key (\<lambda>i. 0) = ''0x'' @ replicate 64 CHR ''0''
   \<and> getBiometricOwner model_sdk (\<lambda>i. 0) =
       ([ConsoleLog [''Simulating biometric prompt for owner key...''],
         SetTimeout 1500,
         PrivateKeyToAccount (''0x'' @ replicate 64 CHR ''0'')],
        Inl invalid_private_key)
   \<and> random_private_key (\<lambda>i. 15 / 16) =
       ''0xffffffffffffffffffffffffffffffffffffffffffffffffffffffffffffffff''
   \<and> snd (getBiometricOwner model_sdk (\<lambda>i. 15 / 16)) = Inl invalid_private_key"
  using zero_key zero_key_owner top_key model_rejects_top_key
  by (simp add: getBiometricOwner_def)

section \<open>Vault creation\<close>

lemma message_of_invalid_private_key:
  "message_or_default invalid_private_key = Some ''invalid private key''"
  by (simp add: message_or_default_def invalid_private_key_def)

lemma nullish_vault_try:
  "snd (createVault_try nullish_sdk model_constants (\<lambda>i. 1 / 2)) = Inl Nullish"
proof -
  have "privateKeyToAccount nullish_sdk = privateKeyToAccount model_sdk"
    by (simp add: nullish_sdk_def)
  with model_accepts_half_key show ?thesis
    by (simp add: createVault_try_def getBiometricOwner_def half_key Let_def)
       (simp add: nullish_sdk_def)
qed

lemma nullish_vault:
  "map status (fst (createVault nullish_sdk model_constants (\<lambda>i. 1 / 2) initial_state)) =
     [''Initializing Biometric Vault...'', ''Initializing Biometric Vault...'']
   \<and> map error (fst (createVault nullish_sdk model_constants (\<lambda>i. 1 / 2) initial_state)) =
     [None, None]
   \<and> map loading (fst (createVault nullish_sdk model_constants (\<lambda>i. 1 / 2) initial_state)) =
     [True, False]
   \<and> map smartClient (fst (createVault nullish_sdk model_constants (\<lambda>i. 1 / 2) initial_state)) =
     [None, None]
   \<and> last (snd (createVault nullish_sdk model_constants (\<lambda>i. 1 / 2) initial_state)) =
     UnhandledRejection"
proof -
  obtain calls where "createVault_try nullish_sdk model_constants (\<lambda>i. 1 / 2) = (calls, Inl Nullish)"
    using nullish_vault_try
    by (cases "createVault_try nullish_sdk model_constants (\<lambda>i. 1 / 2)") simp
  from createVault_failed [OF this, of initial_state] show ?thesis
    by (simp add: message_or_default_def initial_state_def)
qed

text \<open>
  C2, as the spec states it: vault creation takes the status from
  \<^verbatim>\<open>Idle\<close> to \<^verbatim>\<open>Initializing...\<close> and then to
  \<^verbatim>\<open>Vault Active: ...\<close> or to \<^verbatim>\<open>Initialization Failed\<close> with an
  error string. No state a successful run commits has the status
  \<^verbatim>\<open>Initializing...\<close>: the string is
  \<^verbatim>\<open>Initializing Biometric Vault...\<close>. And when account construction rejects
  with \<^verbatim>\<open>undefined\<close>, the status stays at that string and no error is set.
\<close>

theorem createVault_other_statuses:
  "map status (fst (createVault model_sdk model_constants (\<lambda>i. 1 / 2) initial_state)) =
     [''Initializing Biometric Vault...'', ''Initializing Biometric Vault...'',
      ''Vault Active: 0x8888...8888'', ''Vault Active: 0x8888...8888'']
   \<and> ''Initializing...'' \<notin>
       set (map status (fst (createVault model_sdk model_constants (\<lambda>i. 1 / 2) initial_state)))
   \<and> snd (createVault_try nullish_sdk model_constants (\<lambda>i. 1 / 2)) = Inl Nullish
   \<and> map status (fst (createVault nullish_sdk model_constants (\<lambda>i. 1 / 2) initial_state)) =
     [''Initializing Biometric Vault...'', ''Initializing Biometric Vault...'']
   \<and> map error (fst (createVault nullish_sdk model_constants (\<lambda>i. 1 / 2) initial_state)) =
     [None, None]"
proof -
  obtain calls where
    "createVault_try model_sdk model_constants (\<lambda>i. 1 / 2) =
       (calls, Inr (SmartAccountClient
                      (SafeSmartAccount ''0x8888888888888888888888888888888888888888'')))"
    using half_key_vault
    by (cases "createVault_try model_sdk model_constants (\<lambda>i. 1 / 2)") simp
  from createVault_ok [OF this, of initial_state] nullish_vault_try nullish_vault
  show ?thesis by simp
qed

text \<open>
  C2, amended: the status starts as \<^verbatim>\<open>Idle\<close>; vault creation first sets it to
  \<^verbatim>\<open>Initializing Biometric Vault...\<close>, and then, when every step succeeds, to
  \<^verbatim>\<open>Vault Active: \<close> followed by the first 6 characters of the client's account
  address, three dots and its last 4 characters, or, when a step fails with a value whose
  message can be read (any value but undefined and null), to
  \<^verbatim>\<open>Initialization Failed\<close> with the error set to a non-empty string.
\<close>

theorem createVault_status_transitions:
  "status initial_state = ''Idle''
   \<and> status (hd (fst (createVault lib c rnd st))) = ''Initializing Biometric Vault...''
   \<and> (case snd (createVault_try lib c rnd) of
         Inr client \<Rightarrow>
           map status (fst (createVault lib c rnd st)) =
             [''Initializing Biometric Vault...'', ''Initializing Biometric Vault...'',
              ''Vault Active: '' @ take 6 (address (account client)) @ ''...''
                @ drop (length (address (account client)) - 4) (address (account client)),
              ''Vault Active: '' @ take 6 (address (account client)) @ ''...''
                @ drop (length (address (account client)) - 4) (address (account client))]
       | Inl err \<Rightarrow>
           (\<forall>m. message_or_default err = Some m \<longrightarrow>
              map status (fst (createVault lib c rnd st)) =
                [''Initializing Biometric Vault...'', ''Initialization Failed'',
                 ''Initialization Failed'', ''Initialization Failed'']
              \<and> error (final_state st (createVault lib c rnd st)) = Some m
              \<and> m \<noteq> []))"
proof (cases "createVault_try lib c rnd")
  case (Pair calls r)
  show ?thesis
  proof (cases r)
    case (Inl err)
    with Pair createVault_failed [of lib c rnd calls err st] message_or_default_nonempty [of err]
    show ?thesis by (auto simp add: initial_state_def final_state_def split: option.split)
  next
    case (Inr client)
    with Pair createVault_ok [of lib c rnd calls client st]
    show ?thesis by (simp add: initial_state_def)
  qed
qed

theorem createVault_status_witness:
  "snd (createVault_try model_sdk model_constants (\<lambda>i. 0)) = Inl invalid_private_key
   \<and> message_or_default invalid_private_key = Some ''invalid private key''
   \<and> map status (fst (createVault model_sdk model_constants (\<lambda>i. 0) initial_state)) =
     [''Initializing Biometric Vault...'', ''Initialization Failed'',
      ''Initialization Failed'', ''Initialization Failed'']
   \<and> error (final_state initial_state
              (createVault model_sdk model_constants (\<lambda>i. 0) initial_state)) =
       Some ''invalid private key''
   \<and> map status (fst (createVault model_sdk model_constants (\<lambda>i. 1 / 2) initial_state)) =
     [''Initializing Biometric Vault...'', ''Initializing Biometric Vault...'',
      ''Vault Active: 0x8888...8888'', ''Vault Active: 0x8888...8888'']"
proof -
  have z: "snd (createVault_try model_sdk model_constants (\<lambda>i. 0)) = Inl invalid_private_key"
    by (simp add: createVault_try_def zero_key_owner)
  from createVault_status_transitions [of model_sdk model_constants "\<lambda>i. 1 / 2" initial_state]
    createVault_status_transitions [of model_sdk model_constants "\<lambda>i. 0" initial_state]
  show ?thesis by (simp add: half_key_vault z message_of_invalid_private_key)
qed

section \<open>Failures of an action\<close>

lemma createVault_try_fails:
  assumes "snd (getBiometricOwner lib rnd) = Inl err
     \<or> (\<exists>owner'. snd (getBiometricOwner lib rnd) = Inr owner'
           \<and> toSafeSmartAccount lib (safeAccountParams c owner') = Inl err)
     \<or> (\<exists>owner' safeAccount. snd (getBiometricOwner lib rnd) = Inr owner'
           \<and> toSafeSmartAccount lib (safeAccountParams c owner') = Inr safeAccount
           \<and> createSmartAccountClient lib (smartAccountClientParams c safeAccount) = Inl err)"
  shows "snd (createVault_try lib c rnd) = Inl err"
proof (cases "getBiometricOwner lib rnd")
  case (Pair calls1 r)
  with assms show ?thesis
    by (auto simp add: createVault_try_def Let_def split: sum.split)
qed

lemma createVault_failure_keeps_client:
  assumes "snd (getBiometricOwner lib rnd) = Inl err
     \<or> (\<exists>owner'. snd (getBiometricOwner lib rnd) = Inr owner'
           \<and> toSafeSmartAccount lib (safeAccountParams c owner') = Inl err)
     \<or> (\<exists>owner' safeAccount. snd (getBiometricOwner lib rnd) = Inr owner'
           \<and> toSafeSmartAccount lib (safeAccountParams c owner') = Inr safeAccount
           \<and> createSmartAccountClient lib (smartAccountClientParams c safeAccount) = Inl err)"
  shows "list_all (\<lambda>s. smartClient s = smartClient st) (fst (createVault lib c rnd st))
         \<and> smartClient (final_state st (createVault lib c rnd st)) = smartClient st
         \<and> (\<forall>m. message_or_default err = Some m \<longrightarrow>
               status (final_state st (createVault lib c rnd st)) = ''Initialization Failed''
               \<and> error (final_state st (createVault lib c rnd st)) = Some m
               \<and> m \<noteq> []
               \<and> UnhandledRejection \<notin> set (snd (createVault lib c rnd st)))
         \<and> (err = Nullish \<longrightarrow>
               status (final_state st (createVault lib c rnd st)) =
                 ''Initializing Biometric Vault...''
               \<and> error (final_state st (createVault lib c rnd st)) = None
               \<and> last (snd (createVault lib c rnd st)) = UnhandledRejection)"
proof -
  from assms have "snd (createVault_try lib c rnd) = Inl err"
    by (rule createVault_try_fails)
  then obtain calls where t: "createVault_try lib c rnd = (calls, Inl err)"
    by (cases "createVault_try lib c rnd") simp
  have n: "UnhandledRejection \<notin> set calls"
    using t
    by (auto simp add: createVault_try_def getBiometricOwner_def Let_def
        split: sum.splits prod.splits)
  from createVault_failed [OF t, of st] message_or_default_nonempty [of err] n
  show ?thesis
    by (auto simp add: final_state_def message_or_default_def split: option.splits)
qed

lemma enableRecovery_failure_keeps_client:
  assumes "smartClient st = Some client"
    and "snd (enableRecovery_try lib c client guardians) = Inl err"
  shows "list_all (\<lambda>s. smartClient s = Some client) (fst (enableRecovery lib c guardians st))
         \<and> smartClient (final_state st (enableRecovery lib c guardians st)) = Some client
         \<and> status (final_state st (enableRecovery lib c guardians st)) = ''Recovery Setup Failed''
         \<and> (\<forall>m. message_or_default err = Some m \<longrightarrow>
               error (final_state st (enableRecovery lib c guardians st)) = Some m \<and> m \<noteq> [])
         \<and> (err = Nullish \<longrightarrow>
               error (final_state st (enableRecovery lib c guardians st)) = None
               \<and> last (snd (enableRecovery lib c guardians st)) = UnhandledRejection)"
proof -
  from assms(2) obtain calls where t: "enableRecovery_try lib c client guardians = (calls, Inl err)"
    by (cases "enableRecovery_try lib c client guardians") simp
  from enableRecovery_failed [OF assms(1) t] assms(1) message_or_default_nonempty [of err]
  show ?thesis
    by (auto simp add: final_state_def message_or_default_def split: option.splits)
qed

lemma nullish_submission:
  "snd (enableRecovery_try nullish_sdk model_constants model_client wellformed_guardians) =
     Inl Nullish
   \<and> submissions (fst (enableRecovery_try nullish_sdk model_constants model_client
                          wellformed_guardians)) \<noteq> []"
proof -
  have e: "encodeAbiParameters nullish_sdk = encodeAbiParameters model_sdk"
    "encodeFunctionData nullish_sdk = encodeFunctionData model_sdk"
    by (simp_all add: nullish_sdk_def)
  have sv: "setup_values wellformed_guardians =
      [JArr (map JStr wellformed_guardians), JBigInt 3, JBigInt 172800]"
    by (simp add: setup_values_def)
  from enableRecovery_try_submits [of nullish_sdk wellformed_guardians _ model_constants _ _
      model_client, unfolded e sv, OF model_accepts_wellformed_guardians
      model_encodes_enableModule model_encodes_setup]
  show ?thesis by (simp add: e sv nullish_sdk_def)
qed

text \<open>
  C4: a failure is caught at the action boundary and its message is shown, unless the
  value thrown is undefined or null. When account construction rejects with
  \<^verbatim>\<open>undefined\<close>, vault creation stays in the no-vault state, but the status
  stays \<^verbatim>\<open>Initializing Biometric Vault...\<close>, no error message is set, and the
  exception leaves the handler. When the submission rejects with
  \<^verbatim>\<open>undefined\<close>, recovery enablement keeps the client and sets the status
  \<^verbatim>\<open>Recovery Setup Failed\<close>, but the error message stays empty and the
  exception leaves the handler.
\<close>

theorem nullish_rejection_escapes_catch:
  "snd (createVault_try nullish_sdk model_constants (\<lambda>i. 1 / 2)) = Inl Nullish
   \<and> map smartClient (fst (createVault nullish_sdk model_constants (\<lambda>i. 1 / 2) initial_state)) =
       [None, None]
   \<and> status (final_state initial_state
               (createVault nullish_sdk model_constants (\<lambda>i. 1 / 2) initial_state)) =
       ''Initializing Biometric Vault...''
   \<and> error (final_state initial_state
              (createVault nullish_sdk model_constants (\<lambda>i. 1 / 2) initial_state)) = None
   \<and> last (snd (createVault nullish_sdk model_constants (\<lambda>i. 1 / 2) initial_state)) =
       UnhandledRejection
   \<and> smartClient vault_ready = Some model_client
   \<and> snd (enableRecovery_try nullish_sdk model_constants model_client wellformed_guardians) =
       Inl Nullish
   \<and> smartClient (final_state vault_ready
        (enableRecovery nullish_sdk model_constants wellformed_guardians vault_ready)) =
       Some model_client
   \<and> status (final_state vault_ready
        (enableRecovery nullish_sdk model_constants wellformed_guardians vault_ready)) =
       ''Recovery Setup Failed''
   \<and> error (final_state vault_ready
        (enableRecovery nullish_sdk model_constants wellformed_guardians vault_ready)) = None
   \<and> last (snd (enableRecovery nullish_sdk model_constants wellformed_guardians vault_ready)) =
       UnhandledRejection"
proof -
  have c: "smartClient vault_ready = Some model_client"
    by (simp add: vault_ready_def)
  obtain calls where
    t: "createVault_try nullish_sdk model_constants (\<lambda>i. 1 / 2) = (calls, Inl Nullish)"
    using nullish_vault_try
    by (cases "createVault_try nullish_sdk model_constants (\<lambda>i. 1 / 2)") simp
  have cv: "status (final_state initial_state
               (createVault nullish_sdk model_constants (\<lambda>i. 1 / 2) initial_state)) =
       ''Initializing Biometric Vault...''
     \<and> error (final_state initial_state
              (createVault nullish_sdk model_constants (\<lambda>i. 1 / 2) initial_state)) = None"
    using createVault_failed [OF t, of initial_state]
    by (simp add: message_or_default_def final_state_def)
  from enableRecovery_failure_keeps_client [OF c conjunct1 [OF nullish_submission]]
    nullish_vault nullish_vault_try nullish_submission c cv
  show ?thesis by simp
qed

end
